theory Spec2Isabelle
  imports Main
begin

section \<open>The function resource of the catalog product\<close>

text \<open>
  A shallow embedding of \<^verbatim>\<open>internal/providers/pluginfw/products/catalog/resource_function.go\<close>:
  the stabilization wait \<^verbatim>\<open>waitForFunction\<close> and the lifecycle methods \<^verbatim>\<open>ImportState\<close>,
  \<^verbatim>\<open>Create\<close>, \<^verbatim>\<open>Update\<close>, \<^verbatim>\<open>Read\<close> and \<^verbatim>\<open>Delete\<close> of \<^verbatim>\<open>FunctionResource\<close>.

  The resource is a client of three collaborators whose code is not part of the file:
  the remote API (\<^verbatim>\<open>w.Functions\<close>), the plugin framework (diagnostics, plan and state
  access) and the struct converters. The remote API and the converters are parameters of
  the model; every call to the remote API is recorded in a history, so that a theorem can
  speak of which calls were made, in which order and with which arguments.
\<close>

subsection \<open>Diagnostics\<close>

text \<open>
  \<^verbatim>\<open>diag.Diagnostics\<close> is a list of entries of severity error or warning, each with a summary
  and a detail. \<^verbatim>\<open>Append\<close> of the framework skips an entry that the list already holds;
  \<^verbatim>\<open>AddError\<close> appends one error entry.
\<close>

datatype Diagnostic =
    NewErrorDiagnostic string string
  | NewWarningDiagnostic string string

type_synonym Diagnostics = "Diagnostic list"

fun isError :: "Diagnostic \<Rightarrow> bool" where
  "isError (NewErrorDiagnostic summary detail) = True"
| "isError (NewWarningDiagnostic summary detail) = False"

fun HasError :: "Diagnostics \<Rightarrow> bool" where
  "HasError [] = False"
| "HasError (d # ds) = (isError d \<or> HasError ds)"

fun Append :: "Diagnostics \<Rightarrow> Diagnostics \<Rightarrow> Diagnostics" where
  "Append diags [] = diags"
| "Append diags (d # ds) = Append (if d \<in> set diags then diags else diags @ [d]) ds"

definition AddError :: "Diagnostics \<Rightarrow> string \<Rightarrow> string \<Rightarrow> Diagnostics" where
  "AddError diags summary detail = Append diags [NewErrorDiagnostic summary detail]"

subsection \<open>The remote API\<close>

text \<open>
  An error of the remote API carries its message (\<^verbatim>\<open>err.Error()\<close>) and its class:
  \<^verbatim>\<open>apierr.IsMissing\<close> tells the "missing" class from every other.
\<close>

datatype api_error = APIError (IsMissing: bool) (Error: string)

text \<open>
  \<^verbatim>\<open>catalog.FunctionInfo\<close>, the object of the remote API, with the attributes that the
  schema of the resource names. The source reads \<^verbatim>\<open>FullName\<close> only.
\<close>

record FunctionInfo =
  Name :: string
  CatalogName :: string
  SchemaName :: string
  FullName :: string
  DataType :: string
  RoutineBody :: string
  RoutineDefinition :: string
  Language :: string
  CreatedAt :: int
  CreatedBy :: string
  UpdatedAt :: int
  UpdatedBy :: string

text \<open>
  The calls that the resource makes to \<^verbatim>\<open>w.Functions\<close>. The request types
  \<^verbatim>\<open>catalog.CreateFunctionRequest\<close> and \<^verbatim>\<open>catalog.UpdateFunction\<close> are declared outside the
  source: they are the type parameters \<open>'c\<close> and \<open>'u\<close>.
\<close>

datatype ('c, 'u) call =
    CallCreate 'c
  | CallGetByName string
  | CallUpdate 'u
  | CallDeleteByName string

type_synonym ('c, 'u) history = "('c, 'u) call list"

text \<open>
  The remote API answers a call knowing the calls made before it, so that any sequence of
  answers (an object that appears after some polls, an object that is gone at the second
  deletion) is one value of this record.
\<close>

record ('c, 'u) FunctionsAPI =
  Functions_Create :: "('c, 'u) history \<Rightarrow> 'c \<Rightarrow> api_error + FunctionInfo"
  Functions_GetByName :: "('c, 'u) history \<Rightarrow> string \<Rightarrow> api_error + FunctionInfo"
  Functions_Update :: "('c, 'u) history \<Rightarrow> 'u \<Rightarrow> api_error + FunctionInfo"
  Functions_DeleteByName :: "('c, 'u) history \<Rightarrow> string \<Rightarrow> api_error option"

definition Create_call ::
  "('c, 'u) FunctionsAPI \<Rightarrow> 'c \<Rightarrow> ('c, 'u) history \<Rightarrow> (api_error + FunctionInfo) \<times> ('c, 'u) history" where
  "Create_call w createReq h = (Functions_Create w h createReq, h @ [CallCreate createReq])"

definition GetByName ::
  "('c, 'u) FunctionsAPI \<Rightarrow> string \<Rightarrow> ('c, 'u) history \<Rightarrow> (api_error + FunctionInfo) \<times> ('c, 'u) history" where
  "GetByName w name h = (Functions_GetByName w h name, h @ [CallGetByName name])"

definition Update_call ::
  "('c, 'u) FunctionsAPI \<Rightarrow> 'u \<Rightarrow> ('c, 'u) history \<Rightarrow> (api_error + FunctionInfo) \<times> ('c, 'u) history" where
  "Update_call w updateReq h = (Functions_Update w h updateReq, h @ [CallUpdate updateReq])"

definition DeleteByName ::
  "('c, 'u) FunctionsAPI \<Rightarrow> string \<Rightarrow> ('c, 'u) history \<Rightarrow> api_error option \<times> ('c, 'u) history" where
  "DeleteByName w name h = (Functions_DeleteByName w h name, h @ [CallDeleteByName name])"

subsection \<open>The stabilization wait\<close>

text \<open>
  What the callback of a poll returns beside the object: \<^verbatim>\<open>retries.Continue\<close> or
  \<^verbatim>\<open>retries.Halt\<close> of an error, here of its message.
\<close>

datatype retries_Err = Continue string | Halt string

text \<open>
  Modelled from the spec: \<^verbatim>\<open>retries.Poll\<close> belongs to the client library of the remote API
  and its code is not in the source. The spec (4.2) gives its loop: each poll is Ready
  (terminate successfully), NotYetAvailable (continue polling) or Fatal (halt immediately,
  no further retries), and on timeout without reaching Ready the wait fails with a
  timeout that is distinct from a Fatal poll error. The model polls first and looks at the
  deadline only when a poll asks to continue. Wall-clock time is not modelled: the deadline is
  the number of retries that it admits after the first attempt, \<open>clock timeout\<close>, where
  \<open>clock\<close> stands for the pacing of the library and the speed of the remote API. The error
  of a Fatal poll is the error that the callback halted with; the text of the timeout
  error (the last "not yet available" message behind a prefix) is a choice of the model,
  and no theorem below depends on it.
\<close>

datatype poll_failure = PollFatalError string | StabilizationTimeout string

fun poll_failure_Error :: "poll_failure \<Rightarrow> string" where
  "poll_failure_Error (PollFatalError msg) = msg"
| "poll_failure_Error (StabilizationTimeout msg) = ''timed out: '' @ msg"

fun poll_loop ::
  "nat \<Rightarrow> ('s \<Rightarrow> (retries_Err + 'a) \<times> 's) \<Rightarrow> 's \<Rightarrow> (poll_failure + 'a) \<times> 's" where
  "poll_loop 0 fn s =
     (case fn s of
        (Inr res, s') \<Rightarrow> (Inr res, s')
      | (Inl (Halt msg), s') \<Rightarrow> (Inl (PollFatalError msg), s')
      | (Inl (Continue msg), s') \<Rightarrow> (Inl (StabilizationTimeout msg), s'))"
| "poll_loop (Suc n) fn s =
     (case fn s of
        (Inr res, s') \<Rightarrow> (Inr res, s')
      | (Inl (Halt msg), s') \<Rightarrow> (Inl (PollFatalError msg), s')
      | (Inl (Continue msg), s') \<Rightarrow> poll_loop n fn s')"

definition Poll ::
  "(nat \<Rightarrow> nat) \<Rightarrow> nat \<Rightarrow> ('s \<Rightarrow> (retries_Err + 'a) \<times> 's) \<Rightarrow> 's \<Rightarrow> (poll_failure + 'a) \<times> 's" where
  "Poll clock timeout fn s = poll_loop (clock timeout) fn s"

text \<open>\<^verbatim>\<open>time.Duration\<close> counts nanoseconds.\<close>

definition Second :: nat where
  "Second = 1000000000"

definition Minute :: nat where
  "Minute = 60 * Second"

definition timeout :: nat where
  "timeout = 5 * Minute"

text \<open>The callback that \<^verbatim>\<open>waitForFunction\<close> hands to \<^verbatim>\<open>retries.Poll\<close> (lines 35 to 44).\<close>

definition poll_attempt ::
  "('c, 'u) FunctionsAPI \<Rightarrow> FunctionInfo \<Rightarrow> ('c, 'u) history \<Rightarrow> (retries_Err + FunctionInfo) \<times> ('c, 'u) history" where
  "poll_attempt w funcInfo h =
     (case GetByName w (FullName funcInfo) h of
        (Inl err, h') \<Rightarrow>
          if IsMissing err
          then (Inl (Continue (''function '' @ FullName funcInfo @ '' is not yet available'')), h')
          else (Inl (Halt (''failed to get function: '' @ Error err)), h')
      | (Inr attempt, h') \<Rightarrow> (Inr attempt, h'))"

text \<open>
  \<^verbatim>\<open>waitForFunction\<close> returns its diagnostics; the second component is the content of
  \<^verbatim>\<open>*funcInfo\<close> when it returns.
\<close>

definition waitForFunction ::
  "(nat \<Rightarrow> nat) \<Rightarrow> ('c, 'u) FunctionsAPI \<Rightarrow> FunctionInfo \<Rightarrow> ('c, 'u) history \<Rightarrow>
     (Diagnostics \<times> FunctionInfo) \<times> ('c, 'u) history" where
  "waitForFunction clock w funcInfo h =
     (case Poll clock timeout (poll_attempt w funcInfo) h of
        (Inl err, h') \<Rightarrow>
          (([NewErrorDiagnostic ''failed to create function'' (poll_failure_Error err)], funcInfo), h')
      | (Inr result, h') \<Rightarrow> (([], result), h'))"

text \<open>The remote API, asked after the calls \<open>h\<close>, reports the object \<open>name\<close> as missing.\<close>

definition missing_at :: "('c, 'u) FunctionsAPI \<Rightarrow> ('c, 'u) history \<Rightarrow> string \<Rightarrow> bool" where
  "missing_at w h name =
     (case Functions_GetByName w h name of Inl err \<Rightarrow> IsMissing err | Inr obj \<Rightarrow> False)"

subsection \<open>The resource and the plugin framework\<close>

text \<open>
  An attribute of type \<^verbatim>\<open>types.String\<close> is null, unknown or a known string;
  \<^verbatim>\<open>ValueString\<close> is the empty string unless it is known.
\<close>

datatype types_String = StringNull | StringUnknown | StringValue string

fun ValueString :: "types_String \<Rightarrow> string" where
  "ValueString (StringValue v) = v"
| "ValueString StringNull = []"
| "ValueString StringUnknown = []"

text \<open>
  \<^verbatim>\<open>catalog_tf.FunctionInfo\<close>, the plan and the state of the resource, with the attributes
  that \<^verbatim>\<open>Schema\<close> names: \<^verbatim>\<open>name\<close>, \<^verbatim>\<open>catalog_name\<close>, \<^verbatim>\<open>schema_name\<close>, \<^verbatim>\<open>data_type\<close>,
  \<^verbatim>\<open>routine_body\<close>, \<^verbatim>\<open>routine_defintion\<close> and \<^verbatim>\<open>language\<close> are required, \<^verbatim>\<open>full_name\<close>,
  \<^verbatim>\<open>created_by\<close> and \<^verbatim>\<open>updated_by\<close> are read-only. The source reads \<^verbatim>\<open>name\<close> and
  \<^verbatim>\<open>full_name\<close> only.
\<close>

record tf_FunctionInfo =
  tf_Name :: types_String
  tf_CatalogName :: types_String
  tf_SchemaName :: types_String
  tf_FullName :: types_String
  tf_DataType :: types_String
  tf_RoutineBody :: types_String
  tf_RoutineDefinition :: types_String
  tf_Language :: types_String
  tf_CreatedBy :: types_String
  tf_UpdatedBy :: types_String

definition null_FunctionInfo :: tf_FunctionInfo where
  "null_FunctionInfo =
     \<lparr>tf_Name = StringNull, tf_CatalogName = StringNull, tf_SchemaName = StringNull,
      tf_FullName = StringNull, tf_DataType = StringNull, tf_RoutineBody = StringNull,
      tf_RoutineDefinition = StringNull, tf_Language = StringNull, tf_CreatedBy = StringNull,
      tf_UpdatedBy = StringNull\<rparr>"

text \<open>
  The response of a lifecycle method: the state that the framework will store (\<open>None\<close>
  when the resource is removed or not yet set) and the diagnostics.
\<close>

record Response =
  State :: "tf_FunctionInfo option"
  Diagnostics :: Diagnostics

definition Diagnostics_Append :: "Response \<Rightarrow> Diagnostics \<Rightarrow> Response" where
  "Diagnostics_Append resp diags = resp\<lparr>Diagnostics := Append (Diagnostics resp) diags\<rparr>"

definition Diagnostics_AddError :: "Response \<Rightarrow> string \<Rightarrow> string \<Rightarrow> Response" where
  "Diagnostics_AddError resp summary detail =
     resp\<lparr>Diagnostics := AddError (Diagnostics resp) summary detail\<rparr>"

text \<open>
  What the methods call outside the file. \<^verbatim>\<open>GetWorkspaceClient\<close> gives the client of the
  remote API and its diagnostics. \<^verbatim>\<open>Plan.Get\<close>, \<^verbatim>\<open>State.Get\<close>, \<^verbatim>\<open>State.GetAttribute\<close>,
  \<^verbatim>\<open>State.SetAttribute\<close> and \<^verbatim>\<open>State.Set\<close> of the framework decode or encode a value and
  may report diagnostics: these diagnostics are parameters. The converters
  \<^verbatim>\<open>TfSdkToGoSdkStruct\<close> (into a create request and into an update request) and
  \<^verbatim>\<open>GoSdkToTfSdkStruct\<close> are parameters as well, and so is the clock of the poll.
\<close>

record ('c, 'u) env =
  GetWorkspaceClient :: "('c, 'u) FunctionsAPI \<times> Diagnostics"
  Plan_Get :: "tf_FunctionInfo \<Rightarrow> Diagnostics"
  State_Get :: "tf_FunctionInfo \<Rightarrow> Diagnostics"
  State_GetAttribute :: "tf_FunctionInfo \<Rightarrow> Diagnostics"
  State_SetAttribute :: "string \<Rightarrow> Diagnostics"
  State_Set :: "tf_FunctionInfo \<Rightarrow> Diagnostics"
  TfSdkToGoSdkStruct_Create :: "tf_FunctionInfo \<Rightarrow> Diagnostics \<times> 'c"
  TfSdkToGoSdkStruct_Update :: "tf_FunctionInfo \<Rightarrow> Diagnostics \<times> 'u"
  GoSdkToTfSdkStruct :: "FunctionInfo \<Rightarrow> tf_FunctionInfo \<Rightarrow> Diagnostics \<times> tf_FunctionInfo"
  clock :: "nat \<Rightarrow> nat"

text \<open>
  \<^verbatim>\<open>resp.Diagnostics.Append(resp.State.Set(ctx, v)...)\<close>: the state is replaced unless
  encoding it reports an error.
\<close>

definition Set_State :: "('c, 'u) env \<Rightarrow> tf_FunctionInfo \<Rightarrow> Response \<Rightarrow> Response" where
  "Set_State e v resp =
     Diagnostics_Append
       (if HasError (State_Set e v) then resp else resp\<lparr>State := Some v\<rparr>)
       (State_Set e v)"

text \<open>
  \<^verbatim>\<open>ImportState\<close> passes the import identifier through to the attribute \<^verbatim>\<open>full_name\<close> of
  the state, whose other attributes stay as they are (null in a fresh state).
\<close>

definition ImportState :: "('c, 'u) env \<Rightarrow> string \<Rightarrow> Response \<Rightarrow> Response" where
  "ImportState e ID resp =
     Diagnostics_Append
       (if HasError (State_SetAttribute e ID) then resp
        else resp\<lparr>State := Some ((case State resp of None \<Rightarrow> null_FunctionInfo | Some st \<Rightarrow> st)
                                   \<lparr>tf_FullName := StringValue ID\<rparr>)\<rparr>)
       (State_SetAttribute e ID)"

definition Create ::
  "('c, 'u) env \<Rightarrow> tf_FunctionInfo \<Rightarrow> Response \<Rightarrow> ('c, 'u) history \<Rightarrow> Response \<times> ('c, 'u) history" where
  "Create e plan resp h =
     (let (w, diags) = GetWorkspaceClient e;
          resp = Diagnostics_Append resp diags
      in if HasError (Diagnostics resp) then (resp, h)
      else
        let planFunc = plan;
            resp = Diagnostics_Append resp (Plan_Get e plan)
        in if HasError (Diagnostics resp) then (resp, h)
        else
          let (diags, createReq) = TfSdkToGoSdkStruct_Create e planFunc;
              resp = Diagnostics_Append resp diags
          in if HasError (Diagnostics resp) then (resp, h)
          else
            (case Create_call w createReq h of
               (Inl err, h') \<Rightarrow>
                 (Diagnostics_AddError resp ''failed to create function'' (Error err), h')
             | (Inr funcInfo, h') \<Rightarrow>
                 (case waitForFunction (clock e) w funcInfo h' of
                    ((diags, funcInfo), h'') \<Rightarrow>
                      let resp = Diagnostics_Append resp diags
                      in if HasError (Diagnostics resp) then (resp, h'')
                      else
                        let (diags, planFunc) = GoSdkToTfSdkStruct e funcInfo planFunc;
                            resp = Diagnostics_Append resp diags
                        in if HasError (Diagnostics resp) then (resp, h'')
                        else (Set_State e planFunc resp, h''))))"

definition Update ::
  "('c, 'u) env \<Rightarrow> tf_FunctionInfo \<Rightarrow> Response \<Rightarrow> ('c, 'u) history \<Rightarrow> Response \<times> ('c, 'u) history" where
  "Update e plan resp h =
     (let (w, diags) = GetWorkspaceClient e;
          resp = Diagnostics_Append resp diags
      in if HasError (Diagnostics resp) then (resp, h)
      else
        let planFunc = plan;
            resp = Diagnostics_Append resp (Plan_Get e plan)
        in if HasError (Diagnostics resp) then (resp, h)
        else
          let (diags, updateReq) = TfSdkToGoSdkStruct_Update e planFunc;
              resp = Diagnostics_Append resp diags
          in if HasError (Diagnostics resp) then (resp, h)
          else
            (case Update_call w updateReq h of
               (Inl err, h') \<Rightarrow>
                 (Diagnostics_AddError resp ''failed to update function'' (Error err), h')
             | (Inr funcInfo, h') \<Rightarrow>
                 let (diags, planFunc) = GoSdkToTfSdkStruct e funcInfo planFunc;
                     resp = Diagnostics_Append resp diags
                 in if HasError (Diagnostics resp) then (resp, h')
                 else (Set_State e planFunc resp, h')))"

definition Read ::
  "('c, 'u) env \<Rightarrow> tf_FunctionInfo \<Rightarrow> Response \<Rightarrow> ('c, 'u) history \<Rightarrow> Response \<times> ('c, 'u) history" where
  "Read e state resp h =
     (let (w, diags) = GetWorkspaceClient e;
          resp = Diagnostics_Append resp diags
      in if HasError (Diagnostics resp) then (resp, h)
      else
        let stateFunc = state;
            resp = Diagnostics_Append resp (State_Get e state)
        in if HasError (Diagnostics resp) then (resp, h)
        else
          let funcName = ValueString (tf_Name stateFunc)
          in (case GetByName w funcName h of
                (Inl err, h') \<Rightarrow>
                  if IsMissing err then (resp\<lparr>State := None\<rparr>, h')
                  else (Diagnostics_AddError resp ''failed to get function'' (Error err), h')
              | (Inr funcInfo, h') \<Rightarrow>
                  let (diags, stateFunc) = GoSdkToTfSdkStruct e funcInfo stateFunc;
                      resp = Diagnostics_Append resp diags
                  in if HasError (Diagnostics resp) then (resp, h')
                  else (Set_State e stateFunc resp, h')))"

definition Delete ::
  "('c, 'u) env \<Rightarrow> tf_FunctionInfo \<Rightarrow> Response \<Rightarrow> ('c, 'u) history \<Rightarrow> Response \<times> ('c, 'u) history" where
  "Delete e state resp h =
     (let (w, diags) = GetWorkspaceClient e;
          resp = Diagnostics_Append resp diags
      in if HasError (Diagnostics resp) then (resp, h)
      else
        let deleteReq_Name = tf_FullName state;
            resp = Diagnostics_Append resp (State_GetAttribute e state)
        in if HasError (Diagnostics resp) then (resp, h)
        else
          (case DeleteByName w (ValueString deleteReq_Name) h of
             (None, h') \<Rightarrow> (resp, h')
           | (Some err, h') \<Rightarrow>
               if \<not> IsMissing err
               then (Diagnostics_AddError resp ''failed to delete function'' (Error err), h')
               else (resp, h')))"

subsection \<open>A scripted remote API and a host, for concrete runs\<close>

text \<open>
  The remote API of the concrete runs answers the creation and the update with a fixed
  value, the \<open>k\<close>-th lookup with the \<open>k\<close>-th entry of a script ("missing" once the script is
  used up) and a deletion with "missing" when the same name was deleted before.
\<close>

definition not_found :: api_error where
  "not_found = APIError True ''function does not exist''"

definition denied :: api_error where
  "denied = APIError False ''permission denied''"

fun is_GetByName :: "('c, 'u) call \<Rightarrow> bool" where
  "is_GetByName (CallGetByName name) = True"
| "is_GetByName (CallCreate createReq) = False"
| "is_GetByName (CallUpdate updateReq) = False"
| "is_GetByName (CallDeleteByName name) = False"

fun nth_answer :: "(api_error + FunctionInfo) list \<Rightarrow> nat \<Rightarrow> api_error + FunctionInfo" where
  "nth_answer [] k = Inl not_found"
| "nth_answer (a # as) 0 = a"
| "nth_answer (a # as) (Suc k) = nth_answer as k"

definition remote ::
  "(api_error + FunctionInfo) \<Rightarrow> (api_error + FunctionInfo) list \<Rightarrow> (unit, unit) FunctionsAPI" where
  "remote created polls =
     \<lparr>Functions_Create = (\<lambda>h createReq. created),
      Functions_GetByName = (\<lambda>h name. nth_answer polls (length (filter is_GetByName h))),
      Functions_Update = (\<lambda>h updateReq. created),
      Functions_DeleteByName =
        (\<lambda>h name. if CallDeleteByName name \<in> set h then Some not_found else None)\<rparr>"

definition convert :: "FunctionInfo \<Rightarrow> tf_FunctionInfo \<Rightarrow> tf_FunctionInfo" where
  "convert f st =
     \<lparr>tf_Name = StringValue (Name f), tf_CatalogName = StringValue (CatalogName f),
      tf_SchemaName = StringValue (SchemaName f), tf_FullName = StringValue (FullName f),
      tf_DataType = StringValue (DataType f), tf_RoutineBody = StringValue (RoutineBody f),
      tf_RoutineDefinition = StringValue (RoutineDefinition f),
      tf_Language = StringValue (Language f), tf_CreatedBy = StringValue (CreatedBy f),
      tf_UpdatedBy = StringValue (UpdatedBy f)\<rparr>"

definition host :: "(unit, unit) FunctionsAPI \<Rightarrow> (unit, unit) env" where
  "host w =
     \<lparr>GetWorkspaceClient = (w, []),
      Plan_Get = (\<lambda>plan. []),
      State_Get = (\<lambda>state. []),
      State_GetAttribute = (\<lambda>state. []),
      State_SetAttribute = (\<lambda>ID. []),
      State_Set = (\<lambda>state. []),
      TfSdkToGoSdkStruct_Create = (\<lambda>plan. ([], ())),
      TfSdkToGoSdkStruct_Update = (\<lambda>plan. ([], ())),
      GoSdkToTfSdkStruct = (\<lambda>f st. ([], convert f st)),
      clock = (\<lambda>t. t div (100 * Second))\<rparr>"

definition functionA :: FunctionInfo where
  "functionA =
     \<lparr>Name = ''functionA'', CatalogName = ''main'', SchemaName = ''default'',
      FullName = ''main.default.functionA'', DataType = ''INT'', RoutineBody = ''SQL'',
      RoutineDefinition = ''1'', Language = ''SQL'', CreatedAt = 0, CreatedBy = [],
      UpdatedAt = 0, UpdatedBy = []\<rparr>"

definition functionA_stable :: FunctionInfo where
  "functionA_stable = functionA\<lparr>CreatedAt := 1700000000, CreatedBy := ''alice''\<rparr>"

definition empty_response :: Response where
  "empty_response = \<lparr>State = None, Diagnostics = []\<rparr>"

section \<open>Properties\<close>

subsection \<open>Diagnostics\<close>

lemma set_Append: "set (Append a b) = set a \<union> set b"
  by (induction b arbitrary: a) auto

lemma HasError_iff: "HasError ds = (\<exists>d \<in> set ds. isError d)"
  by (induction ds) auto

lemma HasError_Append: "HasError (Append a b) = (HasError a \<or> HasError b)"
  by (auto simp: HasError_iff set_Append)

lemma no_error_filter: "\<not> HasError ds \<Longrightarrow> filter isError ds = []"
  by (induction ds) auto

lemma AddError_fresh:
  "\<not> HasError a \<Longrightarrow> AddError a summary detail = a @ [NewErrorDiagnostic summary detail]"
  by (auto simp: AddError_def HasError_iff)

lemma Diagnostics_Append_simps:
  "State (Diagnostics_Append resp d) = State resp"
  "HasError (Diagnostics (Diagnostics_Append resp d)) = (HasError (Diagnostics resp) \<or> HasError d)"
  by (simp_all add: Diagnostics_Append_def HasError_Append)

lemma Diagnostics_AddError_simps:
  "State (Diagnostics_AddError resp summary detail) = State resp"
  "\<not> HasError (Diagnostics resp) \<Longrightarrow>
     Diagnostics (Diagnostics_AddError resp summary detail) =
       Diagnostics resp @ [NewErrorDiagnostic summary detail]"
  by (simp_all add: Diagnostics_AddError_def AddError_fresh)

subsection \<open>The poll loop\<close>

lemma poll_loop_missing_step:
  assumes "missing_at w h (FullName funcInfo)"
  shows "poll_loop (Suc n) (poll_attempt w funcInfo) h =
         poll_loop n (poll_attempt w funcInfo) (h @ [CallGetByName (FullName funcInfo)])"
  using assms by (simp add: missing_at_def poll_attempt_def GetByName_def split: sum.splits)

lemma poll_loop_missing_last:
  assumes "missing_at w h (FullName funcInfo)"
  shows "poll_loop 0 (poll_attempt w funcInfo) h =
         (Inl (StabilizationTimeout (''function '' @ FullName funcInfo @ '' is not yet available'')),
          h @ [CallGetByName (FullName funcInfo)])"
  using assms by (auto simp: missing_at_def poll_attempt_def GetByName_def split: sum.splits)

lemma poll_loop_fatal_step:
  assumes "Functions_GetByName w h (FullName funcInfo) = Inl err" and "\<not> IsMissing err"
  shows "poll_loop n (poll_attempt w funcInfo) h =
         (Inl (PollFatalError (''failed to get function: '' @ Error err)),
          h @ [CallGetByName (FullName funcInfo)])"
  using assms by (cases n) (simp_all add: poll_attempt_def GetByName_def)

lemma poll_loop_ready_step:
  assumes "Functions_GetByName w h (FullName funcInfo) = Inr obj"
  shows "poll_loop n (poll_attempt w funcInfo) h =
         (Inr obj, h @ [CallGetByName (FullName funcInfo)])"
  using assms by (cases n) (simp_all add: poll_attempt_def GetByName_def)

lemma poll_loop_skip_missing:
  assumes "\<forall>i<k. missing_at w (h @ replicate i (CallGetByName (FullName funcInfo))) (FullName funcInfo)"
  shows "poll_loop (k + n) (poll_attempt w funcInfo) h =
         poll_loop n (poll_attempt w funcInfo) (h @ replicate k (CallGetByName (FullName funcInfo)))"
  using assms
proof (induction k arbitrary: h)
  case 0
  show ?case by simp
next
  case (Suc k)
  let ?g = "CallGetByName (FullName funcInfo)"
  from Suc.prems have m0: "missing_at w h (FullName funcInfo)" by force
  have rest: "\<forall>i<k. missing_at w ((h @ [?g]) @ replicate i ?g) (FullName funcInfo)"
  proof (intro allI impI)
    fix i assume "i < k"
    then have "Suc i < Suc k" by simp
    with Suc.prems have "missing_at w (h @ replicate (Suc i) ?g) (FullName funcInfo)"
      by blast
    then show "missing_at w ((h @ [?g]) @ replicate i ?g) (FullName funcInfo)" by simp
  qed
  have "poll_loop (Suc k + n) (poll_attempt w funcInfo) h =
        poll_loop (k + n) (poll_attempt w funcInfo) (h @ [?g])"
    using poll_loop_missing_step [OF m0, of "k + n"] by simp
  also have "\<dots> = poll_loop n (poll_attempt w funcInfo) ((h @ [?g]) @ replicate k ?g)"
    by (rule Suc.IH [OF rest])
  finally show ?case by (simp add: replicate_append_same)
qed

lemma poll_loop_success_is_last_answer:
  "poll_loop n (poll_attempt w funcInfo) h = (Inr res, h') \<Longrightarrow>
     \<exists>h0. h' = h0 @ [CallGetByName (FullName funcInfo)] \<and>
          Functions_GetByName w h0 (FullName funcInfo) = Inr res"
proof (induction n arbitrary: h)
  case 0
  show ?case
  proof (cases "Functions_GetByName w h (FullName funcInfo)")
    case (Inr obj)
    note step = poll_loop_ready_step [OF Inr, of 0]
    from "0.prems" [unfolded step] have "obj = res \<and> h' = h @ [CallGetByName (FullName funcInfo)]"
      by simp
    with Inr show ?thesis by blast
  next
    case (Inl err)
    show ?thesis
    proof (cases "IsMissing err")
      case True
      with Inl have m: "missing_at w h (FullName funcInfo)" by (simp add: missing_at_def)
      note step = poll_loop_missing_last [OF m]
      from "0.prems" [unfolded step] show ?thesis by simp
    next
      case False
      note step = poll_loop_fatal_step [OF Inl False, of 0]
      from "0.prems" [unfolded step] show ?thesis by simp
    qed
  qed
next
  case (Suc n)
  show ?case
  proof (cases "Functions_GetByName w h (FullName funcInfo)")
    case (Inr obj)
    note step = poll_loop_ready_step [OF Inr, of "Suc n"]
    from Suc.prems [unfolded step] have "obj = res \<and> h' = h @ [CallGetByName (FullName funcInfo)]"
      by simp
    with Inr show ?thesis by blast
  next
    case (Inl err)
    show ?thesis
    proof (cases "IsMissing err")
      case True
      with Inl have m: "missing_at w h (FullName funcInfo)" by (simp add: missing_at_def)
      note step = poll_loop_missing_step [OF m, of n]
      from Suc.prems [unfolded step] show ?thesis by (rule Suc.IH)
    next
      case False
      note step = poll_loop_fatal_step [OF Inl False, of "Suc n"]
      from Suc.prems [unfolded step] show ?thesis by simp
    qed
  qed
qed

subsection \<open>The stabilization wait\<close>

text \<open>
  C2. A poll attempt falls into exactly one of three classes, by the answer of
  \<^verbatim>\<open>GetByName\<close> for the full name: the object (the callback returns it, and the wait ends
  with it), an error of the "missing" class (the callback returns \<^verbatim>\<open>Continue\<close>, and the
  wait goes on with the next attempt as long as the deadline admits one), any other error
  (the callback returns \<^verbatim>\<open>Halt\<close>, and the wait ends at once with that error). The attempt
  makes one call.
\<close>

theorem poll_attempt_classification:
  "(case Functions_GetByName w h (FullName funcInfo) of
      Inr obj \<Rightarrow>
        poll_attempt w funcInfo h = (Inr obj, h @ [CallGetByName (FullName funcInfo)]) \<and>
        poll_loop n (poll_attempt w funcInfo) h =
          (Inr obj, h @ [CallGetByName (FullName funcInfo)])
    | Inl err \<Rightarrow>
        if IsMissing err
        then poll_attempt w funcInfo h =
               (Inl (Continue (''function '' @ FullName funcInfo @ '' is not yet available'')),
                h @ [CallGetByName (FullName funcInfo)]) \<and>
             poll_loop (Suc n) (poll_attempt w funcInfo) h =
               poll_loop n (poll_attempt w funcInfo) (h @ [CallGetByName (FullName funcInfo)])
        else poll_attempt w funcInfo h =
               (Inl (Halt (''failed to get function: '' @ Error err)),
                h @ [CallGetByName (FullName funcInfo)]) \<and>
             poll_loop n (poll_attempt w funcInfo) h =
               (Inl (PollFatalError (''failed to get function: '' @ Error err)),
                h @ [CallGetByName (FullName funcInfo)]))"
proof (cases "Functions_GetByName w h (FullName funcInfo)")
  case (Inr obj)
  then show ?thesis
    using poll_loop_ready_step [OF Inr, of n]
    by (simp add: poll_attempt_def GetByName_def)
next
  case (Inl err)
  show ?thesis
  proof (cases "IsMissing err")
    case True
    with Inl have "missing_at w h (FullName funcInfo)"
      by (simp add: missing_at_def)
    from poll_loop_missing_step [OF this, of n] Inl True show ?thesis
      by (simp add: poll_attempt_def GetByName_def)
  next
    case False
    from poll_loop_fatal_step [OF Inl False, of n] Inl False show ?thesis
      by (simp add: poll_attempt_def GetByName_def)
  qed
qed

text \<open>
  C7. When the first \<open>k\<close> polls find the object missing and the next poll fails with an
  error of another class, before the deadline, the wait makes exactly \<open>k + 1\<close> calls: the
  Fatal poll is the last one. It returns the error diagnostic of that poll and leaves
  \<^verbatim>\<open>funcInfo\<close> as it was.
\<close>

theorem fatal_poll_is_last_attempt:
  assumes "\<forall>i<k. missing_at w (h @ replicate i (CallGetByName (FullName funcInfo))) (FullName funcInfo)"
    and "Functions_GetByName w (h @ replicate k (CallGetByName (FullName funcInfo))) (FullName funcInfo) = Inl err"
    and "\<not> IsMissing err"
    and "k \<le> clk timeout"
  shows "waitForFunction clk w funcInfo h =
         (([NewErrorDiagnostic ''failed to create function'' (''failed to get function: '' @ Error err)],
           funcInfo),
          h @ replicate (Suc k) (CallGetByName (FullName funcInfo)))"
proof -
  let ?g = "CallGetByName (FullName funcInfo)"
  define n where "n = clk timeout - k"
  with assms(4) have n: "clk timeout = k + n" by arith
  have "poll_loop (k + n) (poll_attempt w funcInfo) h =
        poll_loop n (poll_attempt w funcInfo) (h @ replicate k ?g)"
    by (rule poll_loop_skip_missing [OF assms(1)])
  also have "\<dots> = (Inl (PollFatalError (''failed to get function: '' @ Error err)),
                    (h @ replicate k ?g) @ [?g])"
    by (rule poll_loop_fatal_step [OF assms(2) assms(3)])
  finally show ?thesis
    by (simp add: waitForFunction_def Poll_def n replicate_append_same)
qed

theorem fatal_poll_is_last_attempt_witness:
  "waitForFunction (\<lambda>t. t div (100 * Second))
     (remote (Inr functionA) [Inl not_found, Inl not_found, Inl denied, Inr functionA_stable])
     functionA [] =
   (([NewErrorDiagnostic ''failed to create function'' ''failed to get function: permission denied''],
     functionA),
    [CallGetByName ''main.default.functionA'', CallGetByName ''main.default.functionA'',
     CallGetByName ''main.default.functionA''])"
proof -
  let ?w = "remote (Inr functionA) [Inl not_found, Inl not_found, Inl denied, Inr functionA_stable]"
  have 1: "\<forall>i<2. missing_at ?w ([] @ replicate i (CallGetByName (FullName functionA))) (FullName functionA)"
    by (simp add: numeral_2_eq_2 All_less_Suc missing_at_def remote_def not_found_def)
  have 2: "Functions_GetByName ?w ([] @ replicate 2 (CallGetByName (FullName functionA)))
             (FullName functionA) = Inl denied"
    by (simp add: numeral_2_eq_2 remote_def)
  have 3: "\<not> IsMissing denied"
    by (simp add: denied_def)
  have 4: "2 \<le> (\<lambda>t. t div (100 * Second)) timeout"
    by (simp add: timeout_def Minute_def Second_def)
  show ?thesis
    using fatal_poll_is_last_attempt
      [where k = 2 and w = ?w and h = "[]" and funcInfo = functionA and err = denied
         and clk = "\<lambda>t. t div (100 * Second)", OF 1 2 3 4]
    by (simp add: numeral_2_eq_2 functionA_def denied_def)
qed

text \<open>
  The scenario of the spec in which the remote API reports "missing" on the first two
  polls and returns the object on the third, as far as the model states it. Whether the
  third poll takes place is decided by the deadline, that is by wall-clock time, which the
  model does not have: when the deadline admits two retries, the wait succeeds with that
  object after exactly three calls of \<^verbatim>\<open>GetByName\<close>; when it admits one retry only, the
  same answers end in the timeout after two calls. These lemmas say nothing of the time
  that has elapsed.
\<close>

lemma missing_twice_then_found:
  assumes "missing_at w h (FullName funcInfo)"
    and "missing_at w (h @ [CallGetByName (FullName funcInfo)]) (FullName funcInfo)"
    and "Functions_GetByName w
           (h @ [CallGetByName (FullName funcInfo), CallGetByName (FullName funcInfo)])
           (FullName funcInfo) = Inr obj"
    and "2 \<le> clk timeout"
  shows "waitForFunction clk w funcInfo h =
         (([], obj),
          h @ [CallGetByName (FullName funcInfo), CallGetByName (FullName funcInfo),
               CallGetByName (FullName funcInfo)])"
proof -
  let ?g = "CallGetByName (FullName funcInfo)"
  define n where "n = clk timeout - 2"
  with assms(4) have n: "clk timeout = Suc (Suc n)" by arith
  have "poll_loop (Suc (Suc n)) (poll_attempt w funcInfo) h =
        poll_loop n (poll_attempt w funcInfo) ((h @ [?g]) @ [?g])"
    by (simp only: poll_loop_missing_step [OF assms(1)] poll_loop_missing_step [OF assms(2)])
  also have "\<dots> = (Inr obj, ((h @ [?g]) @ [?g]) @ [?g])"
    by (rule poll_loop_ready_step) (use assms(3) in simp)
  finally show ?thesis
    by (simp add: waitForFunction_def Poll_def n)
qed

lemma missing_twice_then_found_example:
  "waitForFunction (\<lambda>t. t div (100 * Second))
     (remote (Inr functionA) [Inl not_found, Inl not_found, Inr functionA_stable])
     functionA [] =
   (([], functionA_stable),
    [CallGetByName ''main.default.functionA'', CallGetByName ''main.default.functionA'',
     CallGetByName ''main.default.functionA''])"
proof -
  let ?w = "remote (Inr functionA) [Inl not_found, Inl not_found, Inr functionA_stable]"
  have 1: "missing_at ?w [] (FullName functionA)"
    by (simp add: missing_at_def remote_def not_found_def)
  have 2: "missing_at ?w ([] @ [CallGetByName (FullName functionA)]) (FullName functionA)"
    by (simp add: missing_at_def remote_def not_found_def)
  have 3: "Functions_GetByName ?w
             ([] @ [CallGetByName (FullName functionA), CallGetByName (FullName functionA)])
             (FullName functionA) = Inr functionA_stable"
    by (simp add: remote_def)
  have 4: "2 \<le> (\<lambda>t. t div (100 * Second)) timeout"
    by (simp add: timeout_def Minute_def Second_def)
  show ?thesis
    using missing_twice_then_found
      [where w = ?w and h = "[]" and funcInfo = functionA and obj = functionA_stable
         and clk = "\<lambda>t. t div (100 * Second)", OF 1 2 3 4]
    by (simp add: functionA_def)
qed

lemma missing_twice_short_deadline:
  assumes "missing_at w h (FullName funcInfo)"
    and "missing_at w (h @ [CallGetByName (FullName funcInfo)]) (FullName funcInfo)"
    and "clk timeout = 1"
  shows "waitForFunction clk w funcInfo h =
         (([NewErrorDiagnostic ''failed to create function''
              (''timed out: function '' @ FullName funcInfo @ '' is not yet available'')],
           funcInfo),
          h @ [CallGetByName (FullName funcInfo), CallGetByName (FullName funcInfo)])"
proof -
  let ?g = "CallGetByName (FullName funcInfo)"
  have "poll_loop (Suc 0) (poll_attempt w funcInfo) h =
        poll_loop 0 (poll_attempt w funcInfo) (h @ [?g])"
    by (rule poll_loop_missing_step [OF assms(1)])
  also have "\<dots> =
        (Inl (StabilizationTimeout (''function '' @ FullName funcInfo @ '' is not yet available'')),
         (h @ [?g]) @ [?g])"
    by (rule poll_loop_missing_last [OF assms(2)])
  finally show ?thesis
    by (simp add: waitForFunction_def Poll_def assms(3))
qed

text \<open>
  C10. \<^verbatim>\<open>waitForFunction\<close> changes \<^verbatim>\<open>*funcInfo\<close> on success only. When it reports an error,
  \<^verbatim>\<open>funcInfo\<close> is what it was and the diagnostics are one error entry, "failed to create
  function". When it reports none, the diagnostics are empty and \<^verbatim>\<open>funcInfo\<close> is the answer
  to the last call, a \<^verbatim>\<open>GetByName\<close> for the full name. \<^verbatim>\<open>Create\<close> then stores the conversion
  of that snapshot, not of the answer to the creation call.
\<close>

theorem waitForFunction_mutates_only_on_success:
  "(case waitForFunction clk w funcInfo h of
      ((diags, funcInfo'), h') \<Rightarrow>
        if HasError diags
        then funcInfo' = funcInfo \<and>
             (\<exists>detail. diags = [NewErrorDiagnostic ''failed to create function'' detail])
        else diags = [] \<and>
             (\<exists>h0. h' = h0 @ [CallGetByName (FullName funcInfo)] \<and>
                   Functions_GetByName w h0 (FullName funcInfo) = Inr funcInfo'))
   \<and> (\<forall>raw snap h''.
         \<not> HasError (Diagnostics resp) \<and>
         \<not> HasError (snd (GetWorkspaceClient e)) \<and>
         \<not> HasError (Plan_Get e plan) \<and>
         \<not> HasError (fst (TfSdkToGoSdkStruct_Create e plan)) \<and>
         Functions_Create (fst (GetWorkspaceClient e)) h (snd (TfSdkToGoSdkStruct_Create e plan)) = Inr raw \<and>
         waitForFunction (clock e) (fst (GetWorkspaceClient e)) raw
           (h @ [CallCreate (snd (TfSdkToGoSdkStruct_Create e plan))]) = (([], snap), h'') \<and>
         \<not> HasError (fst (GoSdkToTfSdkStruct e snap plan)) \<and>
         \<not> HasError (State_Set e (snd (GoSdkToTfSdkStruct e snap plan)))
         \<longrightarrow> State (fst (Create e plan resp h)) = Some (snd (GoSdkToTfSdkStruct e snap plan)) \<and>
             snd (Create e plan resp h) = h'')"
proof (intro conjI allI impI)
  show "case waitForFunction clk w funcInfo h of
      ((diags, funcInfo'), h') \<Rightarrow>
        if HasError diags
        then funcInfo' = funcInfo \<and>
             (\<exists>detail. diags = [NewErrorDiagnostic ''failed to create function'' detail])
        else diags = [] \<and>
             (\<exists>h0. h' = h0 @ [CallGetByName (FullName funcInfo)] \<and>
                   Functions_GetByName w h0 (FullName funcInfo) = Inr funcInfo')"
  proof (cases "poll_loop (clk timeout) (poll_attempt w funcInfo) h")
    case (Pair r h1)
    show ?thesis
    proof (cases r)
      case (Inl failure)
      with Pair show ?thesis by (simp add: waitForFunction_def Poll_def)
    next
      case (Inr res)
      with Pair poll_loop_success_is_last_answer [of "clk timeout" w funcInfo h res h1]
      show ?thesis by (simp add: waitForFunction_def Poll_def)
    qed
  qed
next
  fix raw snap h''
  assume a: "\<not> HasError (Diagnostics resp) \<and>
         \<not> HasError (snd (GetWorkspaceClient e)) \<and>
         \<not> HasError (Plan_Get e plan) \<and>
         \<not> HasError (fst (TfSdkToGoSdkStruct_Create e plan)) \<and>
         Functions_Create (fst (GetWorkspaceClient e)) h (snd (TfSdkToGoSdkStruct_Create e plan)) = Inr raw \<and>
         waitForFunction (clock e) (fst (GetWorkspaceClient e)) raw
           (h @ [CallCreate (snd (TfSdkToGoSdkStruct_Create e plan))]) = (([], snap), h'') \<and>
         \<not> HasError (fst (GoSdkToTfSdkStruct e snap plan)) \<and>
         \<not> HasError (State_Set e (snd (GoSdkToTfSdkStruct e snap plan)))"
  then show "State (fst (Create e plan resp h)) = Some (snd (GoSdkToTfSdkStruct e snap plan))"
    by (simp add: Create_def Create_call_def Set_State_def Let_def case_prod_beta
        Diagnostics_Append_simps)
  from a show "snd (Create e plan resp h) = h''"
    by (simp add: Create_def Create_call_def Set_State_def Let_def case_prod_beta
        Diagnostics_Append_simps)
qed

theorem waitForFunction_mutates_only_on_success_witness:
  "State (fst (Create (host (remote (Inr functionA) [Inl not_found, Inr functionA_stable]))
      (convert functionA null_FunctionInfo) empty_response [])) =
     Some (convert functionA_stable null_FunctionInfo)
   \<and> convert functionA_stable null_FunctionInfo \<noteq> convert functionA null_FunctionInfo
   \<and> snd (Create (host (remote (Inr functionA) [Inl not_found, Inr functionA_stable]))
      (convert functionA null_FunctionInfo) empty_response []) =
     [CallCreate (), CallGetByName ''main.default.functionA'', CallGetByName ''main.default.functionA'']"
proof -
  let ?w = "remote (Inr functionA) [Inl not_found, Inr functionA_stable]"
  let ?g = "CallGetByName ''main.default.functionA''"
  have wait: "waitForFunction (clock (host ?w)) (fst (GetWorkspaceClient (host ?w))) functionA
      ([] @ [CallCreate (snd (TfSdkToGoSdkStruct_Create (host ?w) (convert functionA null_FunctionInfo)))]) =
      (([], functionA_stable), [CallCreate (), ?g, ?g])"
    by (simp add: waitForFunction_def Poll_def poll_attempt_def GetByName_def host_def remote_def
        functionA_def not_found_def timeout_def Minute_def Second_def numeral_3_eq_3)
  have conv: "convert functionA_stable null_FunctionInfo \<noteq> convert functionA null_FunctionInfo"
    by (simp add: convert_def functionA_stable_def functionA_def)
  from waitForFunction_mutates_only_on_success
      [where clk = "clock (host ?w)" and w = ?w and funcInfo = functionA and h = "[]"
         and resp = empty_response and e = "host ?w" and plan = "convert functionA null_FunctionInfo",
       THEN conjunct2, rule_format, of functionA functionA_stable "[CallCreate (), ?g, ?g]"]
    wait
  have "State (fst (Create (host ?w) (convert functionA null_FunctionInfo) empty_response [])) =
          Some (snd (GoSdkToTfSdkStruct (host ?w) functionA_stable (convert functionA null_FunctionInfo)))
        \<and> snd (Create (host ?w) (convert functionA null_FunctionInfo) empty_response []) =
          [CallCreate (), ?g, ?g]"
    by (simp add: host_def remote_def empty_response_def)
  with conv show ?thesis
    by (simp add: host_def convert_def)
qed

subsection \<open>The lifecycle methods\<close>

text \<open>
  C6. When the creation call of \<^verbatim>\<open>Create\<close> fails, \<^verbatim>\<open>Create\<close> has made that one call and no
  other (no second creation call, no poll), the state of the response is what it was, and
  the only error diagnostic is "failed to create function" with the message of the remote
  error as its detail.
\<close>

theorem Create_api_failure:
  assumes "\<not> HasError (Diagnostics resp)"
    and "\<not> HasError (snd (GetWorkspaceClient e))"
    and "\<not> HasError (Plan_Get e plan)"
    and "\<not> HasError (fst (TfSdkToGoSdkStruct_Create e plan))"
    and "Functions_Create (fst (GetWorkspaceClient e)) h (snd (TfSdkToGoSdkStruct_Create e plan)) = Inl err"
  shows "snd (Create e plan resp h) = h @ [CallCreate (snd (TfSdkToGoSdkStruct_Create e plan))]
       \<and> State (fst (Create e plan resp h)) = State resp
       \<and> filter isError (Diagnostics (fst (Create e plan resp h))) =
           [NewErrorDiagnostic ''failed to create function'' (Error err)]"
  using assms
  by (simp add: Create_def Create_call_def Let_def case_prod_beta Diagnostics_Append_simps
      Diagnostics_AddError_simps no_error_filter)

theorem Create_api_failure_witness:
  "snd (Create (host (remote (Inl denied) [])) (convert functionA null_FunctionInfo) empty_response []) =
     [CallCreate ()]
   \<and> State (fst (Create (host (remote (Inl denied) [])) (convert functionA null_FunctionInfo)
        empty_response [])) = None
   \<and> filter isError (Diagnostics (fst (Create (host (remote (Inl denied) []))
        (convert functionA null_FunctionInfo) empty_response []))) =
     [NewErrorDiagnostic ''failed to create function'' ''permission denied'']"
  using Create_api_failure [of empty_response "host (remote (Inl denied) [])"
      "convert functionA null_FunctionInfo" "[]" denied]
  by (simp add: host_def remote_def denied_def empty_response_def)

text \<open>
  C4. When the lookup of \<^verbatim>\<open>Read\<close> fails with an error of the "missing" class, \<^verbatim>\<open>Read\<close>
  removes the resource from the state and reports no error diagnostic. When it fails with
  any other error, the state is what it was and the only error diagnostic is "failed to
  get function" with the message of the remote error.
\<close>

theorem Read_fetch_failure:
  assumes "\<not> HasError (Diagnostics resp)"
    and "\<not> HasError (snd (GetWorkspaceClient e))"
    and "\<not> HasError (State_Get e state)"
    and "Functions_GetByName (fst (GetWorkspaceClient e)) h (ValueString (tf_Name state)) = Inl err"
  shows "if IsMissing err
         then State (fst (Read e state resp h)) = None \<and>
              \<not> HasError (Diagnostics (fst (Read e state resp h)))
         else State (fst (Read e state resp h)) = State resp \<and>
              filter isError (Diagnostics (fst (Read e state resp h))) =
                [NewErrorDiagnostic ''failed to get function'' (Error err)]"
  using assms
  by (simp add: Read_def GetByName_def Let_def case_prod_beta Diagnostics_Append_simps
      Diagnostics_AddError_simps no_error_filter)

theorem Read_fetch_failure_witness:
  "State (fst (Read (host (remote (Inr functionA) [])) (convert functionA null_FunctionInfo)
      \<lparr>State = Some (convert functionA null_FunctionInfo), Diagnostics = []\<rparr> [])) = None
   \<and> \<not> HasError (Diagnostics (fst (Read (host (remote (Inr functionA) []))
        (convert functionA null_FunctionInfo)
        \<lparr>State = Some (convert functionA null_FunctionInfo), Diagnostics = []\<rparr> [])))
   \<and> State (fst (Read (host (remote (Inr functionA) [Inl denied])) (convert functionA null_FunctionInfo)
      \<lparr>State = Some (convert functionA null_FunctionInfo), Diagnostics = []\<rparr> [])) =
        Some (convert functionA null_FunctionInfo)
   \<and> filter isError (Diagnostics (fst (Read (host (remote (Inr functionA) [Inl denied]))
        (convert functionA null_FunctionInfo)
        \<lparr>State = Some (convert functionA null_FunctionInfo), Diagnostics = []\<rparr> []))) =
        [NewErrorDiagnostic ''failed to get function'' ''permission denied'']"
  using Read_fetch_failure [of "\<lparr>State = Some (convert functionA null_FunctionInfo), Diagnostics = []\<rparr>"
      "host (remote (Inr functionA) [])" "convert functionA null_FunctionInfo" "[]" not_found]
    Read_fetch_failure [of "\<lparr>State = Some (convert functionA null_FunctionInfo), Diagnostics = []\<rparr>"
      "host (remote (Inr functionA) [Inl denied])" "convert functionA null_FunctionInfo" "[]" denied]
  by (simp add: host_def remote_def not_found_def denied_def)

text \<open>
  C5. \<^verbatim>\<open>Delete\<close> makes one deletion call, for the attribute \<^verbatim>\<open>full_name\<close> of the state. When
  the call succeeds, or fails with an error of the "missing" class (the object is already
  absent, as at a second deletion), \<^verbatim>\<open>Delete\<close> reports no error diagnostic. When it fails
  with any other error, the only error diagnostic is "failed to delete function" with the
  message of the remote error.
\<close>

theorem Delete_idempotent:
  assumes "\<not> HasError (Diagnostics resp)"
    and "\<not> HasError (snd (GetWorkspaceClient e))"
    and "\<not> HasError (State_GetAttribute e state)"
  shows "snd (Delete e state resp h) = h @ [CallDeleteByName (ValueString (tf_FullName state))] \<and>
         (case Functions_DeleteByName (fst (GetWorkspaceClient e)) h (ValueString (tf_FullName state)) of
            None \<Rightarrow> \<not> HasError (Diagnostics (fst (Delete e state resp h)))
          | Some err \<Rightarrow>
              if IsMissing err
              then \<not> HasError (Diagnostics (fst (Delete e state resp h)))
              else filter isError (Diagnostics (fst (Delete e state resp h))) =
                     [NewErrorDiagnostic ''failed to delete function'' (Error err)])"
  using assms
  by (simp add: Delete_def DeleteByName_def Let_def case_prod_beta Diagnostics_Append_simps
      Diagnostics_AddError_simps no_error_filter split: option.splits)

theorem Delete_idempotent_witness:
  "snd (Delete (host (remote (Inr functionA) [])) (convert functionA null_FunctionInfo) empty_response []) =
     [CallDeleteByName ''main.default.functionA'']
   \<and> Functions_DeleteByName (remote (Inr functionA) []) [CallDeleteByName ''main.default.functionA'']
       ''main.default.functionA'' = Some not_found
   \<and> IsMissing not_found
   \<and> \<not> HasError (Diagnostics (fst (Delete (host (remote (Inr functionA) []))
        (convert functionA null_FunctionInfo) empty_response [CallDeleteByName ''main.default.functionA''])))"
  using Delete_idempotent [of empty_response "host (remote (Inr functionA) [])"
      "convert functionA null_FunctionInfo" "[]"]
    Delete_idempotent [of empty_response "host (remote (Inr functionA) [])"
      "convert functionA null_FunctionInfo" "[CallDeleteByName ''main.default.functionA'']"]
  by (simp add: host_def remote_def not_found_def empty_response_def convert_def functionA_def)

text \<open>
  The lookup key of \<^verbatim>\<open>Read\<close>, for every state: whenever \<^verbatim>\<open>Read\<close> reaches the remote API, it
  makes one call, \<^verbatim>\<open>GetByName\<close> of the attribute \<^verbatim>\<open>name\<close> of the state.
\<close>

lemma Read_lookup_key:
  assumes "\<not> HasError (Diagnostics resp)"
    and "\<not> HasError (snd (GetWorkspaceClient e))"
    and "\<not> HasError (State_Get e state)"
  shows "snd (Read e state resp h) = h @ [CallGetByName (ValueString (tf_Name state))]"
  using assms
  by (simp add: Read_def GetByName_def Let_def case_prod_beta Diagnostics_Append_simps
      split: sum.splits)

text \<open>
  C1. The claim: \<^verbatim>\<open>Read\<close> looks the object up under its full name, the identity that
  \<^verbatim>\<open>ImportState\<close> seeds into the state. The code looks it up under the attribute \<^verbatim>\<open>name\<close>.
  For the stored state of \<^verbatim>\<open>main.default.functionA\<close>, \<^verbatim>\<open>Read\<close> calls
  \<^verbatim>\<open>GetByName("functionA")\<close>, where \<^verbatim>\<open>Delete\<close> and the stabilization wait address the same
  object as \<^verbatim>\<open>main.default.functionA\<close>; for the state that \<^verbatim>\<open>ImportState\<close> seeds from the
  identity \<^verbatim>\<open>main.default.functionA\<close>, in which \<^verbatim>\<open>name\<close> is null, \<^verbatim>\<open>Read\<close> calls
  \<^verbatim>\<open>GetByName("")\<close>.
\<close>

theorem Read_looks_up_name_not_full_name:
  "snd (Read (host (remote (Inr functionA) [Inr functionA])) (convert functionA null_FunctionInfo)
         empty_response []) = [CallGetByName ''functionA'']
   \<and> snd (Delete (host (remote (Inr functionA) [Inr functionA])) (convert functionA null_FunctionInfo)
         empty_response []) = [CallDeleteByName ''main.default.functionA'']
   \<and> snd (waitForFunction (clock (host (remote (Inr functionA) [Inr functionA])))
         (remote (Inr functionA) [Inr functionA]) functionA []) = [CallGetByName ''main.default.functionA'']
   \<and> State (ImportState (host (remote (Inr functionA) [Inr functionA])) ''main.default.functionA''
         empty_response) = Some (null_FunctionInfo\<lparr>tf_FullName := StringValue ''main.default.functionA''\<rparr>)
   \<and> snd (Read (host (remote (Inr functionA) [Inr functionA]))
         (null_FunctionInfo\<lparr>tf_FullName := StringValue ''main.default.functionA''\<rparr>)
         empty_response []) = [CallGetByName []]"
  by (simp add: Read_def Delete_def ImportState_def waitForFunction_def Poll_def poll_attempt_def
      GetByName_def DeleteByName_def Set_State_def Diagnostics_Append_def host_def remote_def
      convert_def functionA_def empty_response_def null_FunctionInfo_def timeout_def Minute_def
      Second_def numeral_3_eq_3)

end
